theory Spec2Isabelle
  imports Complex_Main
begin

section \<open>Numbers\<close>

text \<open>
  The program is JavaScript, whose numbers are IEEE 754 doubles. A finite double is
  modelled by the real number it denotes, and \<open>double x\<close> is the double nearest to the
  real \<open>x\<close>, a tie going to the even significand. A decimal constant \<open>c\<close> of the source
  denotes \<open>double c\<close>, and each \<open>+\<close>, \<open>-\<close>, \<open>*\<close>, \<open>/\<close> of the source is the exact operation
  followed by \<open>double\<close>. The unary minus, \<open>Math.abs\<close>, \<open>Math.max\<close>, \<open>Math.min\<close>,
  \<open>Math.round\<close> and the comparisons are exact. Subnormal doubles are covered; overflow to
  an infinity, \<open>NaN\<close> and the sign of zero are not modelled. Millisecond time stamps and
  their differences are integers (exact in doubles, being far below \<open>2^53\<close>).
\<close>

fun ilog2 :: "nat \<Rightarrow> nat" where
  \<comment> \<open>The integer part of the binary logarithm of \<open>n \<ge> 1\<close>.\<close>
  "ilog2 n = (if n < 2 then 0 else Suc (ilog2 (n div 2)))"

declare ilog2.simps [simp del]

definition exponent :: "real \<Rightarrow> int" where
  \<comment> \<open>The binary exponent \<open>e\<close> of \<open>x \<noteq> 0\<close>: \<open>2^e \<le> \<bar>x\<bar> < 2^(e + 1)\<close>.\<close>
  "exponent x =
     (if 1 \<le> \<bar>x\<bar> then int (ilog2 (nat \<lfloor>\<bar>x\<bar>\<rfloor>))
      else - int (Suc (ilog2 (nat (\<lceil>1 / \<bar>x\<bar>\<rceil> - 1)))))"

definition pow2 :: "int \<Rightarrow> real" where
  "pow2 k = (if 0 \<le> k then 2 ^ nat k else 1 / 2 ^ nat (- k))"

definition round_half_even :: "real \<Rightarrow> int" where
  \<comment> \<open>The nearest integer, a tie going to the even one.\<close>
  "round_half_even y =
     (let f = \<lfloor>y\<rfloor>
      in if y - real_of_int f < 1 / 2 then f
         else if y - real_of_int f > 1 / 2 then f + 1
         else if even f then f else f + 1)"

definition double :: "real \<Rightarrow> real" where
  \<comment> \<open>Rounding to the nearest double: a significand of 53 bits, the spacing \<open>q\<close> of the
      doubles around \<open>x\<close> being \<open>2^(e - 52)\<close>, where the exponent \<open>e\<close> is at least \<open>-1022\<close>.\<close>
  "double x =
     (if x = 0 then 0
      else (let q = pow2 (max (exponent x) (- 1022) - 52)
            in real_of_int (round_half_even (x / q)) * q))"

definition Math_round :: "real \<Rightarrow> int" where
  \<comment> \<open>\<open>Math.round\<close>: the nearest integer, a tie going up (towards plus infinity).\<close>
  "Math_round x = \<lfloor>x + 1 / 2\<rfloor>"

section \<open>Bloom classification service (\<open>classifyBloomIntensity\<close>)\<close>

record threshold_set =
  dormant :: real
  low :: real
  active :: real
  peak :: real

datatype bloom_level = Dormant | LowBloom | ActiveBloom | PeakBloom

fun level_name :: "bloom_level \<Rightarrow> string" where
  "level_name Dormant = ''Dormant''"
| "level_name LowBloom = ''Low Bloom''"
| "level_name ActiveBloom = ''Active Bloom''"
| "level_name PeakBloom = ''Peak Bloom''"

fun level_rank :: "bloom_level \<Rightarrow> nat" where
  \<comment> \<open>The order Dormant < Low Bloom < Active Bloom < Peak Bloom.\<close>
  "level_rank Dormant = 0"
| "level_rank LowBloom = 1"
| "level_rank ActiveBloom = 2"
| "level_rank PeakBloom = 3"

record classification =
  level :: bloom_level
  intensity :: string
  color :: string
  description :: string
  confidence :: int

definition baseThresholds :: threshold_set where
  "baseThresholds =
     \<lparr>dormant = double 0.3, low = double 0.5, active = double 0.7, peak = double 0.8\<rparr>"

definition seasonalAdjustments :: "string \<Rightarrow> threshold_set option" where
  \<comment> \<open>The object literal keyed by season name; a key that is absent gives \<open>None\<close>.
      Here and in the other tables, names that an object literal inherits from
      \<open>Object.prototype\<close> (such as \<open>constructor\<close>) are taken not to occur as keys.\<close>
  "seasonalAdjustments season =
     (if season = ''Spring'' then
        Some \<lparr>dormant = - double 0.1, low = - double 0.05, active = 0, peak = double 0.05\<rparr>
      else if season = ''Summer'' then
        Some \<lparr>dormant = 0, low = 0, active = double 0.05, peak = double 0.1\<rparr>
      else if season = ''Autumn'' then
        Some \<lparr>dormant = 0, low = 0, active = 0, peak = 0\<rparr>
      else if season = ''Winter'' then
        Some \<lparr>dormant = double 0.1, low = double 0.05, active = - double 0.05, peak = - double 0.1\<rparr>
      else None)"

definition latitudeAdjustment :: "real \<Rightarrow> real" where
  "latitudeAdjustment latitude = (if \<bar>latitude\<bar> < double 23.5 then double 0.1 else 0)"

definition adjustments :: "string \<Rightarrow> threshold_set" where
  \<comment> \<open>\<open>seasonalAdjustments[season] || { dormant: 0, low: 0, active: 0, peak: 0 }\<close>\<close>
  "adjustments season =
     (case seasonalAdjustments season of
        Some a \<Rightarrow> a
      | None \<Rightarrow> \<lparr>dormant = 0, low = 0, active = 0, peak = 0\<rparr>)"

definition thresholds :: "string \<Rightarrow> real \<Rightarrow> threshold_set" where
  "thresholds season latitude =
     \<lparr>dormant = max (double 0.1)
         (double (double (dormant baseThresholds + dormant (adjustments season))
            + latitudeAdjustment latitude)),
      low = max (double 0.2)
         (double (double (low baseThresholds + low (adjustments season))
            + latitudeAdjustment latitude)),
      active = max (double 0.3)
         (double (double (active baseThresholds + active (adjustments season))
            + latitudeAdjustment latitude)),
      peak = max (double 0.4)
         (double (double (peak baseThresholds + peak (adjustments season))
            + latitudeAdjustment latitude))\<rparr>"

definition calculateConfidence :: "real \<Rightarrow> real \<Rightarrow> int" where
  "calculateConfidence ndvi threshold =
     (let distance = \<bar>double (ndvi - threshold)\<bar>;
          confidence = max (double 0.6) (double (1 - double (distance * 2)))
      in Math_round (double (confidence * 100)))"

definition classifyBloomIntensity :: "real \<Rightarrow> string \<Rightarrow> real \<Rightarrow> classification" where
  \<comment> \<open>The field \<open>ndviRange\<close>, a string formatted with \<open>toFixed(2)\<close>, is left out.\<close>
  "classifyBloomIntensity ndvi season latitude =
     (let t = thresholds season latitude in
      if ndvi \<ge> peak t then
        \<lparr>level = PeakBloom, intensity = ''Very High'', color = ''#10B981'',
         description = ''Exceptional flowering activity with maximum vegetation health'',
         confidence = calculateConfidence ndvi (peak t)\<rparr>
      else if ndvi \<ge> active t then
        \<lparr>level = ActiveBloom, intensity = ''High'', color = ''#34D399'',
         description = ''Strong flowering activity with healthy vegetation growth'',
         confidence = calculateConfidence ndvi (active t)\<rparr>
      else if ndvi \<ge> low t then
        \<lparr>level = LowBloom, intensity = ''Medium'', color = ''#FBBF24'',
         description = ''Moderate flowering activity with developing vegetation'',
         confidence = calculateConfidence ndvi (low t)\<rparr>
      else
        \<lparr>level = Dormant, intensity = ''Low'', color = ''#6B7280'',
         description = ''Minimal flowering activity, vegetation in dormant phase'',
         confidence = calculateConfidence ndvi (double 0.1)\<rparr>)"

section \<open>Map component (\<open>classifyBloomIntensity\<close> of \<open>WorldMapSection.jsx\<close>)\<close>

record map_classification =
  map_level :: bloom_level
  map_color :: string
  map_description :: string
  map_confidence :: int

definition map_thresholds :: "string \<Rightarrow> threshold_set option" where
  "map_thresholds season =
     (if season = ''Spring'' then
        Some \<lparr>dormant = double 0.3, low = double 0.5, active = double 0.7, peak = double 0.8\<rparr>
      else if season = ''Summer'' then
        Some \<lparr>dormant = double 0.4, low = double 0.6, active = double 0.8, peak = double 0.85\<rparr>
      else if season = ''Autumn'' then
        Some \<lparr>dormant = double 0.3, low = double 0.5, active = double 0.7, peak = double 0.8\<rparr>
      else if season = ''Winter'' then
        Some \<lparr>dormant = double 0.2, low = double 0.4, active = double 0.6, peak = double 0.7\<rparr>
      else None)"

definition map_t :: "string \<Rightarrow> threshold_set" where
  \<comment> \<open>\<open>thresholds[season] || thresholds['Spring']\<close>\<close>
  "map_t season =
     (case map_thresholds season of
        Some t \<Rightarrow> t
      | None \<Rightarrow>
          \<lparr>dormant = double 0.3, low = double 0.5, active = double 0.7, peak = double 0.8\<rparr>)"

definition map_classifyBloomIntensity :: "real \<Rightarrow> string \<Rightarrow> real \<Rightarrow> map_classification" where
  \<comment> \<open>The argument \<open>latitude\<close> is not read. The field \<open>ndviRange\<close> is left out.\<close>
  "map_classifyBloomIntensity ndvi season latitude =
     (let t = map_t season;
          conf = Math_round (double (double (ndvi / peak t) * 100))
      in
      if ndvi \<ge> peak t then
        \<lparr>map_level = PeakBloom, map_color = ''#10B981'',
         map_description = ''Exceptional flowering activity with maximum vegetation health'',
         map_confidence = conf\<rparr>
      else if ndvi \<ge> active t then
        \<lparr>map_level = ActiveBloom, map_color = ''#34D399'',
         map_description = ''Strong flowering activity with healthy vegetation growth'',
         map_confidence = conf\<rparr>
      else if ndvi \<ge> low t then
        \<lparr>map_level = LowBloom, map_color = ''#FBBF24'',
         map_description = ''Moderate flowering activity with developing vegetation'',
         map_confidence = conf\<rparr>
      else
        \<lparr>map_level = Dormant, map_color = ''#6B7280'',
         map_description = ''Minimal flowering activity, vegetation in dormant phase'',
         map_confidence = conf\<rparr>)"

section \<open>NDVI data service (\<open>fetchNDVIData\<close> and the fallback generator)\<close>

text \<open>
  A thrown value is an \<open>error\<close>; a function that may throw returns \<open>error + 'a\<close>.
  The calendar month read from the clock (\<open>new Date().getMonth() + 1\<close>, always one of
  1 to 12) is an argument. \<open>None\<close> stands for \<open>undefined\<close> in a string field and for
  \<open>NaN\<close> in a number: the \<open>switch\<close> of \<open>getSeasonForLocation\<close> has no \<open>default\<close>, so a
  month outside 1 to 12 would leave \<open>season\<close> and \<open>phase\<close> unassigned and the baseline
  lookup would give \<open>NaN\<close>. The arithmetic of this section is written exactly, without
  \<open>double\<close>: each baseline is one sum of two decimals with one digit, which in doubles
  lies within \<open>10^-16\<close> of the exact sum, and the statements about this section bound
  the index values by 0.1 and 0.9 and compare the confidences 0.6 and 0.85 only.
\<close>

datatype error = Error string

record season_info =
  name :: "string option"
  phase :: "string option"

record observation =
  obs_latitude :: real
  obs_longitude :: real
  obs_ndvi :: "real option"
  obs_ndviAnomaly :: real
  obs_confidence :: real
  obs_source :: string
  obs_season :: "string option"
  obs_seasonPhase :: "string option"

definition phaseOf :: "nat \<Rightarrow> nat \<Rightarrow> nat \<Rightarrow> string" where
  \<comment> \<open>\<open>month === m1 ? 'Early' : month === m2 ? 'Mid' : 'Late'\<close>\<close>
  "phaseOf month m1 m2 = (if month = m1 then ''Early'' else if month = m2 then ''Mid'' else ''Late'')"

definition northernSeason :: "nat \<Rightarrow> season_info" where
  \<comment> \<open>The \<open>switch\<close> of the branch \<open>isNorthernHemisphere\<close>.\<close>
  "northernSeason month =
     (if month = 12 \<or> month = 1 \<or> month = 2 then
        \<lparr>name = Some ''Winter'', phase = Some (phaseOf month 12 1)\<rparr>
      else if month = 3 \<or> month = 4 \<or> month = 5 then
        \<lparr>name = Some ''Spring'', phase = Some (phaseOf month 3 4)\<rparr>
      else if month = 6 \<or> month = 7 \<or> month = 8 then
        \<lparr>name = Some ''Summer'', phase = Some (phaseOf month 6 7)\<rparr>
      else if month = 9 \<or> month = 10 \<or> month = 11 then
        \<lparr>name = Some ''Autumn'', phase = Some (phaseOf month 9 10)\<rparr>
      else \<lparr>name = None, phase = None\<rparr>)"

definition southernSeason :: "nat \<Rightarrow> season_info" where
  \<comment> \<open>The \<open>switch\<close> of the \<open>else\<close> branch (southern hemisphere).\<close>
  "southernSeason month =
     (if month = 12 \<or> month = 1 \<or> month = 2 then
        \<lparr>name = Some ''Summer'', phase = Some (phaseOf month 12 1)\<rparr>
      else if month = 3 \<or> month = 4 \<or> month = 5 then
        \<lparr>name = Some ''Autumn'', phase = Some (phaseOf month 3 4)\<rparr>
      else if month = 6 \<or> month = 7 \<or> month = 8 then
        \<lparr>name = Some ''Winter'', phase = Some (phaseOf month 6 7)\<rparr>
      else if month = 9 \<or> month = 10 \<or> month = 11 then
        \<lparr>name = Some ''Spring'', phase = Some (phaseOf month 9 10)\<rparr>
      else \<lparr>name = None, phase = None\<rparr>)"

definition getSeasonForLocation :: "real \<Rightarrow> real \<Rightarrow> nat \<Rightarrow> season_info" where
  "getSeasonForLocation lat lon month =
     (let isNorthernHemisphere = lat > 0
      in if isNorthernHemisphere then northernSeason month else southernSeason month)"

definition baseValues :: "real \<Rightarrow> string \<Rightarrow> real option" where
  "baseValues lat key =
     (if key = ''Winter'' then Some (0.2 + (if lat > 0 then 0.1 else 0.3))
      else if key = ''Spring'' then Some (0.4 + (if lat > 0 then 0.2 else 0.1))
      else if key = ''Summer'' then Some (0.7 + (if lat > 0 then 0.1 else - 0.1))
      else if key = ''Autumn'' then Some (0.5 + (if lat > 0 then 0.1 else 0.2))
      else None)"

definition getSeasonalNDVI :: "season_info \<Rightarrow> real \<Rightarrow> real option" where
  \<comment> \<open>\<open>Math.max(0.1, Math.min(0.9, baseValues[season.name]))\<close>; a missing key gives \<open>NaN\<close>.\<close>
  "getSeasonalNDVI season lat =
     (case name season of
        None \<Rightarrow> None
      | Some key \<Rightarrow>
          (case baseValues lat key of
             None \<Rightarrow> None
           | Some b \<Rightarrow> Some (max 0.1 (min 0.9 b))))"

definition generateFallbackNDVI :: "real \<Rightarrow> real \<Rightarrow> nat \<Rightarrow> observation" where
  \<comment> \<open>The field \<open>date\<close>, the clock reading as an ISO string, is left out.\<close>
  "generateFallbackNDVI lat lon month =
     (let season = getSeasonForLocation lat lon month;
          baseNDVI = getSeasonalNDVI season lat
      in \<lparr>obs_latitude = lat, obs_longitude = lon, obs_ndvi = baseNDVI, obs_ndviAnomaly = 0,
          obs_confidence = 0.6, obs_source = ''Fallback'',
          obs_season = name season, obs_seasonPhase = phase season\<rparr>)"

definition mockNDVIFetch :: "real \<Rightarrow> real \<Rightarrow> nat \<Rightarrow> real \<Rightarrow> real \<Rightarrow> observation" where
  \<comment> \<open>The reading that stands for the satellite source. \<open>random1\<close> and \<open>random2\<close> are the
      two values of \<open>Math.random()\<close>, each at least 0 and below 1. The delay of 500 ms
      before it is not modelled.\<close>
  "mockNDVIFetch lat lon month random1 random2 =
     (let season = getSeasonForLocation lat lon month;
          baseNDVI = getSeasonalNDVI season lat;
          anomaly = (random1 - 0.5) * 0.2
      in \<lparr>obs_latitude = lat, obs_longitude = lon,
          obs_ndvi = (case baseNDVI of None \<Rightarrow> None | Some b \<Rightarrow> Some (max 0 (min 1 (b + anomaly)))),
          obs_ndviAnomaly = anomaly,
          obs_confidence = 0.85 + random2 * 0.1, obs_source = ''MODIS'',
          obs_season = name season, obs_seasonPhase = phase season\<rparr>)"

definition fetchNDVIData :: "(error + observation) \<Rightarrow> nat \<Rightarrow> real \<Rightarrow> real \<Rightarrow> error + observation" where
  \<comment> \<open>\<open>fetched\<close> is the outcome of the awaited data fetch inside \<open>try\<close>: \<open>Inl\<close> when it
      throws. \<open>getMODISCoordinates\<close> before it is arithmetic whose result is not used.\<close>
  "fetchNDVIData fetched month latitude longitude =
     (case fetched of
        Inr mockNDVIResponse \<Rightarrow> Inr mockNDVIResponse
      | Inl e \<Rightarrow> Inr (generateFallbackNDVI latitude longitude month))"

section \<open>Data cache (\<open>DataCache\<close>)\<close>

text \<open>
  The cache is the \<open>Map\<close> held by the \<open>DataCache\<close> object, passed in and returned.
  Every reading of \<open>Date.now()\<close> is an argument, in the order the method reads the clock.
  \<open>saveToStorage\<close> copies the map to \<open>localStorage\<close> inside \<open>try\<close>/\<open>catch\<close> and leaves
  the map as it is, so it has no counterpart here.
\<close>

datatype cache_key = CacheKey string real real
  \<comment> \<open>The string \<open>`${dataType}_${roundedLat}_${roundedLon}`\<close>, kept as its three parts.\<close>

record 'd cache_entry =
  data :: 'd
  timestamp :: int
  dataType :: string
  hits :: int
  lastAccessed :: int

type_synonym ('k, 'd) cache_map = "'k \<Rightarrow> 'd cache_entry option"

definition CACHE_DURATION :: "string \<Rightarrow> int option" where
  "CACHE_DURATION ty =
     (if ty = ''NDVI'' then Some (7 * 24 * 60 * 60 * 1000)
      else if ty = ''PHENOLOGY'' then Some (14 * 24 * 60 * 60 * 1000)
      else if ty = ''IMAGES'' then Some (30 * 24 * 60 * 60 * 1000)
      else if ty = ''LOCATIONS'' then Some (90 * 24 * 60 * 60 * 1000)
      else None)"

definition duration :: "string \<Rightarrow> int" where
  \<comment> \<open>\<open>CACHE_DURATION[dataType] || CACHE_DURATION.NDVI\<close>; no duration of the table is 0.\<close>
  "duration ty = (case CACHE_DURATION ty of Some d \<Rightarrow> d | None \<Rightarrow> 7 * 24 * 60 * 60 * 1000)"

definition generateKey :: "real \<Rightarrow> real \<Rightarrow> string \<Rightarrow> cache_key" where
  \<comment> \<open>\<open>Math.round(latitude * 1000) / 1000\<close>: the product and the quotient are doubles.\<close>
  "generateKey latitude longitude ty =
     (let roundedLat = double (real_of_int (Math_round (double (latitude * 1000))) / 1000);
          roundedLon = double (real_of_int (Math_round (double (longitude * 1000))) / 1000)
      in CacheKey ty roundedLat roundedLon)"

definition isCacheValid :: "'k \<Rightarrow> string \<Rightarrow> int \<Rightarrow> ('k, 'd) cache_map \<Rightarrow> bool" where
  "isCacheValid key ty now cache =
     (case cache key of
        None \<Rightarrow> False
      | Some cached \<Rightarrow> now - timestamp cached < duration ty)"

definition cache_get ::
  "'k \<Rightarrow> string \<Rightarrow> int \<Rightarrow> int \<Rightarrow> ('k, 'd) cache_map \<Rightarrow> 'd option \<times> ('k, 'd) cache_map" where
  \<comment> \<open>\<open>DataCache.get\<close>; \<open>None\<close> is the returned \<open>null\<close>. \<open>now\<close> is the clock read by
      \<open>isCacheValid\<close>, \<open>now2\<close> the one stored in \<open>lastAccessed\<close>.\<close>
  "cache_get key ty now now2 cache =
     (if isCacheValid key ty now cache then
        (case cache key of
           Some cached \<Rightarrow>
             (Some (data cached),
              cache(key \<mapsto> cached\<lparr>hits := hits cached + 1, lastAccessed := now2\<rparr>))
         | None \<Rightarrow> (None, cache(key := None)))
      else (None, cache(key := None)))"

definition cache_set ::
  "'k \<Rightarrow> 'd \<Rightarrow> string \<Rightarrow> int \<Rightarrow> int \<Rightarrow> ('k, 'd) cache_map \<Rightarrow> ('k, 'd) cache_map" where
  \<comment> \<open>\<open>DataCache.set\<close>\<close>
  "cache_set key d ty now now2 cache =
     cache(key \<mapsto> \<lparr>data = d, timestamp = now, dataType = ty, hits = 0, lastAccessed = now2\<rparr>)"

definition getCachedLocationData ::
  "real \<Rightarrow> real \<Rightarrow> int \<Rightarrow> int \<Rightarrow> (cache_key, 'd) cache_map \<Rightarrow> 'd option \<times> (cache_key, 'd) cache_map" where
  "getCachedLocationData latitude longitude now now2 cache =
     (let key = generateKey latitude longitude ''LOCATIONS''
      in cache_get key ''LOCATIONS'' now now2 cache)"

definition cacheLocationData ::
  "real \<Rightarrow> real \<Rightarrow> 'd \<Rightarrow> int \<Rightarrow> int \<Rightarrow> (cache_key, 'd) cache_map \<Rightarrow> (cache_key, 'd) cache_map" where
  "cacheLocationData latitude longitude bloomStatus now now2 cache =
     (let key = generateKey latitude longitude ''LOCATIONS''
      in cache_set key bloomStatus ''LOCATIONS'' now now2 cache)"

section \<open>Bloom data service (\<open>BloomDataService\<close>)\<close>

text \<open>
  The state of the service is the cache and the map \<open>requestQueue\<close> of requests in flight,
  each with the outcome its promise settles to. \<open>getBloomData\<close> is modelled from the
  point where \<open>initialize()\<close> has returned. \<open>fetchBloomData\<close>, which composes the data
  sources and reads and writes the cache on the way, is an argument: a function from the
  cache to its outcome and the cache it leaves. The four clock arguments are the readings
  of \<open>DataCache.get\<close> and of \<open>DataCache.set\<close>. The cached data are arbitrary values;
  \<open>truthy\<close> says which of them pass the test \<open>if (cachedData)\<close> (every object does;
  \<open>0\<close>, the empty string, \<open>false\<close> and \<open>null\<close> do not). The refresh queue filled by
  \<open>scheduleLocationRefresh\<close> is not modelled.
\<close>

record 'd service_state =
  cache_of :: "(cache_key, 'd) cache_map"
  requestQueue :: "real \<times> real \<Rightarrow> (error + 'd) option"

definition requestBloomData ::
  "((cache_key, 'd) cache_map \<Rightarrow> (error + 'd) \<times> (cache_key, 'd) cache_map) \<Rightarrow>
   int \<Rightarrow> int \<Rightarrow> real \<Rightarrow> real \<Rightarrow> (cache_key, 'd) cache_map \<Rightarrow> 'd service_state \<Rightarrow>
   (error + 'd) \<times> 'd service_state" where
  \<comment> \<open>The part of \<open>getBloomData\<close> after the cache check, run on the cache \<open>c1\<close> that the
      check has left: the request in flight for the same coordinates if there is one,
      else a call of \<open>fetchBloomData\<close>, whose result is cached when it succeeds.\<close>
  "requestBloomData fetchBloomData now3 now4 latitude longitude c1 s =
     (case requestQueue s (latitude, longitude) of
        Some pending \<Rightarrow> (pending, s\<lparr>cache_of := c1\<rparr>)
      | None \<Rightarrow>
          (case fetchBloomData c1 of
             (Inr result, c2) \<Rightarrow>
               (Inr result,
                s\<lparr>cache_of := cacheLocationData latitude longitude result now3 now4 c2\<rparr>)
           | (Inl e, c2) \<Rightarrow> (Inl e, s\<lparr>cache_of := c2\<rparr>)))"

definition getBloomData ::
  "('d \<Rightarrow> bool) \<Rightarrow>
   ((cache_key, 'd) cache_map \<Rightarrow> (error + 'd) \<times> (cache_key, 'd) cache_map) \<Rightarrow>
   int \<Rightarrow> int \<Rightarrow> int \<Rightarrow> int \<Rightarrow> bool \<Rightarrow> real \<Rightarrow> real \<Rightarrow> 'd service_state \<Rightarrow>
   (error + 'd) \<times> 'd service_state" where
  "getBloomData truthy fetchBloomData now now2 now3 now4 forceRefresh latitude longitude s =
     (if \<not> forceRefresh then
        (case getCachedLocationData latitude longitude now now2 (cache_of s) of
           (Some cachedData, c1) \<Rightarrow>
             (if truthy cachedData then (Inr cachedData, s\<lparr>cache_of := c1\<rparr>)
              else requestBloomData fetchBloomData now3 now4 latitude longitude c1 s)
         | (None, c1) \<Rightarrow> requestBloomData fetchBloomData now3 now4 latitude longitude c1 s)
      else requestBloomData fetchBloomData now3 now4 latitude longitude (cache_of s) s)"

record location =
  loc_latitude :: real
  loc_longitude :: real

datatype 'a settled = Fulfilled 'a | Rejected error

definition Promise_allSettled :: "(error + 'a) list \<Rightarrow> 'a settled list" where
  \<comment> \<open>Each promise is given by the outcome it settles to; the order is kept.\<close>
  "Promise_allSettled outcomes =
     map (\<lambda>outcome. case outcome of Inr v \<Rightarrow> Fulfilled v | Inl r \<Rightarrow> Rejected r) outcomes"

record 'd batch_slot =
  slot_location :: location
  slot_data :: "'d option"
  slot_error :: "error option"

definition getBatchBloomData ::
  "(nat \<Rightarrow> real \<Rightarrow> real \<Rightarrow> error + 'd) \<Rightarrow> location list \<Rightarrow> error + 'd batch_slot list" where
  \<comment> \<open>\<open>settles i latitude longitude\<close> is the outcome of the promise that the \<open>i\<close>-th call
      \<open>this.getBloomData(latitude, longitude, options)\<close> returns. \<open>initialize()\<close> before
      it catches its own errors.\<close>
  "getBatchBloomData settles locations =
     (let results = Promise_allSettled
            (map (\<lambda>(i, l). settles i (loc_latitude l) (loc_longitude l)) (enumerate 0 locations))
      in Inr (map (\<lambda>index.
                \<lparr>slot_location = locations ! index,
                 slot_data = (case results ! index of Fulfilled v \<Rightarrow> Some v | Rejected r \<Rightarrow> None),
                 slot_error = (case results ! index of Rejected r \<Rightarrow> Some r | Fulfilled v \<Rightarrow> None)\<rparr>)
              [0..<length results]))"

section \<open>Historical comparison (\<open>calculatePercentile\<close>)\<close>





section \<open>Forecast engine\<close>

text \<open>
  Modelled from the spec: the forecast engine is the Python backend behind
  \<open>GET /bloom-forecast\<close>, which is not among the sources; only its caller
  \<open>fetchBloomForecast\<close> is. The definitions of this section follow section 4.4 of the
  specification. The history is the chronological list of (month, index value) pairs,
  months counted as numbers. The fitted model of the normal case (trend plus a 12-month
  seasonal component, with a band from the residual variance) is left to the implementer
  by the specification and is an argument here.
\<close>

record forecast_point =
  target_month :: nat
  predicted_index :: real
  lower_bound :: real
  upper_bound :: real

datatype confidence_tag = NormalConfidence | LowConfidence

record forecast_result =
  points :: "forecast_point list"
  tag :: confidence_tag

definition flat_forecast :: "(nat \<times> real) list \<Rightarrow> nat \<Rightarrow> forecast_point list" where
  \<comment> \<open>Modelled from the spec: the flat forecast repeats the last known value for each of
      the next \<open>N\<close> months.\<close>
  "flat_forecast history N =
     map (\<lambda>k. \<lparr>target_month = fst (last history) + k, predicted_index = snd (last history),
               lower_bound = snd (last history), upper_bound = snd (last history)\<rparr>)
         [1..<Suc N]"

definition forecast ::
  "((nat \<times> real) list \<Rightarrow> nat \<Rightarrow> forecast_point list) \<Rightarrow> (nat \<times> real) list \<Rightarrow> nat \<Rightarrow>
   error + forecast_result" where
  \<comment> \<open>Modelled from the spec: empty history gives the empty output; fewer than 2 distinct
      data points give the flat forecast tagged as low-confidence; otherwise the fitted
      model \<open>fit\<close> gives the points. No case is an error.\<close>
  "forecast fit history N =
     (if history = [] then Inr \<lparr>points = [], tag = LowConfidence\<rparr>
      else if length (remdups history) < 2 then
        Inr \<lparr>points = flat_forecast history N, tag = LowConfidence\<rparr>
      else Inr \<lparr>points = fit history N, tag = NormalConfidence\<rparr>)"

section \<open>The four seasons of the specification\<close>

datatype season = Spring | Summer | Autumn | Winter

fun season_name :: "season \<Rightarrow> string" where
  "season_name Spring = ''Spring''"
| "season_name Summer = ''Summer''"
| "season_name Autumn = ''Autumn''"
| "season_name Winter = ''Winter''"

section \<open>Properties of the rounding to doubles\<close>

lemmas double_eval =
  double_def exponent_def pow2_def round_half_even_def Let_def ilog2.simps







section \<open>Properties of the classifier\<close>

lemma latitudeAdjustment_eq:
  "latitudeAdjustment latitude = (if \<bar>latitude\<bar> < 23.5 then double 0.1 else 0)"
  by (simp add: latitudeAdjustment_def double_eval)

lemmas classifier_defs =
  thresholds_def adjustments_def seasonalAdjustments_def baseThresholds_def latitudeAdjustment_eq

lemma level_classifyBloomIntensity:
  "level (classifyBloomIntensity ndvi season latitude) =
     (if ndvi \<ge> peak (thresholds season latitude) then PeakBloom
      else if ndvi \<ge> active (thresholds season latitude) then ActiveBloom
      else if ndvi \<ge> low (thresholds season latitude) then LowBloom
      else Dormant)"
  by (simp add: classifyBloomIntensity_def Let_def)

lemma thresholds_season_name:
  "thresholds (season_name s) latitude =
     \<lparr>dormant = max (double 0.10)
        (double (double (double 0.30
             + (case s of Spring \<Rightarrow> - double 0.10 | Summer \<Rightarrow> 0 | Autumn \<Rightarrow> 0 | Winter \<Rightarrow> double 0.10))
           + (if \<bar>latitude\<bar> < 23.5 then double 0.10 else 0))),
      low = max (double 0.20)
        (double (double (double 0.50
             + (case s of Spring \<Rightarrow> - double 0.05 | Summer \<Rightarrow> 0 | Autumn \<Rightarrow> 0 | Winter \<Rightarrow> double 0.05))
           + (if \<bar>latitude\<bar> < 23.5 then double 0.10 else 0))),
      active = max (double 0.30)
        (double (double (double 0.70
             + (case s of Spring \<Rightarrow> 0 | Summer \<Rightarrow> double 0.05 | Autumn \<Rightarrow> 0 | Winter \<Rightarrow> - double 0.05))
           + (if \<bar>latitude\<bar> < 23.5 then double 0.10 else 0))),
      peak = max (double 0.40)
        (double (double (double 0.80
             + (case s of Spring \<Rightarrow> double 0.05 | Summer \<Rightarrow> double 0.10 | Autumn \<Rightarrow> 0 | Winter \<Rightarrow> - double 0.10))
           + (if \<bar>latitude\<bar> < 23.5 then double 0.10 else 0)))\<rparr>"
  by (cases s) (simp_all add: classifier_defs)

lemma thresholds_tropical:
  "\<bar>latitude\<bar> < 23.5 \<Longrightarrow> thresholds (season_name s) latitude = thresholds (season_name s) 0"
  by (simp add: classifier_defs)

lemma thresholds_temperate:
  "\<not> \<bar>latitude\<bar> < 23.5 \<Longrightarrow> thresholds (season_name s) latitude = thresholds (season_name s) 45"
  by (simp add: classifier_defs)

lemma thresholds_values_tropical:
  "thresholds ''Spring'' 0 = \<lparr>dormant = 5404319552844595 / 2 ^ 54, low = 2476979795053773 / 2 ^ 52,
      active = 7205759403792793 / 2 ^ 53, peak = 8556839292003943 / 2 ^ 53\<rparr>"
  "thresholds ''Summer'' 0 = \<lparr>dormant = 3602879701896397 / 2 ^ 53, low = 5404319552844595 / 2 ^ 53,
      active = 7656119366529843 / 2 ^ 53, peak = 1\<rparr>"
  "thresholds ''Autumn'' 0 = \<lparr>dormant = 3602879701896397 / 2 ^ 53, low = 5404319552844595 / 2 ^ 53,
      active = 7205759403792793 / 2 ^ 53, peak = 8106479329266893 / 2 ^ 53\<rparr>"
  "thresholds ''Winter'' 0 = \<lparr>dormant = 1 / 2, low = 5854679515581645 / 2 ^ 53,
      active = 6755399441055743 / 2 ^ 53, peak = 3602879701896397 / 2 ^ 52\<rparr>"
  by (simp_all add: classifier_defs double_eval)

lemma thresholds_values_temperate:
  "thresholds ''Spring'' 45 = \<lparr>dormant = 7205759403792793 / 2 ^ 55, low = 8106479329266893 / 2 ^ 54,
      active = 3152519739159347 / 2 ^ 52, peak = 1914029841632461 / 2 ^ 51\<rparr>"
  "thresholds ''Summer'' 45 = \<lparr>dormant = 5404319552844595 / 2 ^ 54, low = 1 / 2,
      active = 3 / 4, peak = 8106479329266893 / 2 ^ 53\<rparr>"
  "thresholds ''Autumn'' 45 = \<lparr>dormant = 5404319552844595 / 2 ^ 54, low = 1 / 2,
      active = 3152519739159347 / 2 ^ 52, peak = 3602879701896397 / 2 ^ 52\<rparr>"
  "thresholds ''Winter'' 45 = \<lparr>dormant = 3602879701896397 / 2 ^ 53, low = 2476979795053773 / 2 ^ 52,
      active = 1463669878895411 / 2 ^ 51, peak = 6305039478318695 / 2 ^ 53\<rparr>"
  by (simp_all add: classifier_defs double_eval)

lemma thresholds_near_decimal:
  "\<bar>dormant (thresholds (season_name s) latitude)
      - max 0.10 (0.30 + (case s of Spring \<Rightarrow> - 0.10 | Summer \<Rightarrow> 0 | Autumn \<Rightarrow> 0 | Winter \<Rightarrow> 0.10)
                  + (if \<bar>latitude\<bar> < 23.5 then 0.10 else 0))\<bar> \<le> 1 / 2 ^ 53
   \<and> \<bar>low (thresholds (season_name s) latitude)
      - max 0.20 (0.50 + (case s of Spring \<Rightarrow> - 0.05 | Summer \<Rightarrow> 0 | Autumn \<Rightarrow> 0 | Winter \<Rightarrow> 0.05)
                  + (if \<bar>latitude\<bar> < 23.5 then 0.10 else 0))\<bar> \<le> 1 / 2 ^ 53
   \<and> \<bar>active (thresholds (season_name s) latitude)
      - max 0.30 (0.70 + (case s of Spring \<Rightarrow> 0 | Summer \<Rightarrow> 0.05 | Autumn \<Rightarrow> 0 | Winter \<Rightarrow> - 0.05)
                  + (if \<bar>latitude\<bar> < 23.5 then 0.10 else 0))\<bar> \<le> 1 / 2 ^ 53
   \<and> \<bar>peak (thresholds (season_name s) latitude)
      - max 0.40 (0.80 + (case s of Spring \<Rightarrow> 0.05 | Summer \<Rightarrow> 0.10 | Autumn \<Rightarrow> 0 | Winter \<Rightarrow> - 0.10)
                  + (if \<bar>latitude\<bar> < 23.5 then 0.10 else 0))\<bar> \<le> 1 / 2 ^ 53"
proof (cases "\<bar>latitude\<bar> < 23.5")
  case True
  show ?thesis
    unfolding thresholds_tropical [OF True]
    using True by (cases s) (simp_all add: thresholds_values_tropical)
next
  case False
  show ?thesis
    unfolding thresholds_temperate [OF False]
    using False by (cases s) (simp_all add: thresholds_values_temperate)
qed

lemma double_0_85: "double (17 / 20) = 7656119366529843 / 2 ^ 53"
  by (simp add: double_eval)

text \<open>
  Claim C1, as stated: the thresholds are the decimal sums of base value, season delta
  and latitude adjustment, so that for Spring at latitude 45 the peak threshold is
  0.80 + 0.05 = 0.85 and the index 0.85 is Peak Bloom. The code adds doubles: its peak
  threshold there is neither 0.85 nor the double nearest to 0.85 but the next double
  above, and the index 0.85 (the double the constant 0.85 denotes) is Active Bloom.
\<close>

theorem spring_temperate_085_not_peak:
  "peak (thresholds ''Spring'' 45) \<noteq> max 0.40 (0.80 + 0.05 + 0)
   \<and> peak (thresholds ''Spring'' 45) \<noteq> double (max 0.40 (0.80 + 0.05 + 0))
   \<and> (0.85 :: real) \<ge> max 0.40 (0.80 + 0.05 + 0)
   \<and> level (classifyBloomIntensity (double 0.85) ''Spring'' 45) = ActiveBloom"
  by (simp add: level_classifyBloomIntensity thresholds_values_temperate double_0_85)

text \<open>
  Claim C1, amended. For every index value, each of the four seasons and every latitude,
  the thresholds of the classifier are computed in doubles: the base value 0.30, 0.50,
  0.70, 0.80 plus the delta of the season (in the order dormant, low, active, peak),
  rounded to a double, plus 0.10 when the absolute latitude is below 23.5, rounded
  again, each then raised to at least 0.10, 0.20, 0.30, 0.40. Each threshold lies within
  \<open>2^-53\<close> of the decimal sum, but need not be the double nearest to it. The level is the
  first of peak, active, low whose threshold the index reaches, else Dormant.
\<close>

theorem classifier_thresholds_and_level:
  "thresholds (season_name s) latitude =
     \<lparr>dormant = max (double 0.10)
        (double (double (double 0.30
             + (case s of Spring \<Rightarrow> - double 0.10 | Summer \<Rightarrow> 0 | Autumn \<Rightarrow> 0 | Winter \<Rightarrow> double 0.10))
           + (if \<bar>latitude\<bar> < 23.5 then double 0.10 else 0))),
      low = max (double 0.20)
        (double (double (double 0.50
             + (case s of Spring \<Rightarrow> - double 0.05 | Summer \<Rightarrow> 0 | Autumn \<Rightarrow> 0 | Winter \<Rightarrow> double 0.05))
           + (if \<bar>latitude\<bar> < 23.5 then double 0.10 else 0))),
      active = max (double 0.30)
        (double (double (double 0.70
             + (case s of Spring \<Rightarrow> 0 | Summer \<Rightarrow> double 0.05 | Autumn \<Rightarrow> 0 | Winter \<Rightarrow> - double 0.05))
           + (if \<bar>latitude\<bar> < 23.5 then double 0.10 else 0))),
      peak = max (double 0.40)
        (double (double (double 0.80
             + (case s of Spring \<Rightarrow> double 0.05 | Summer \<Rightarrow> double 0.10 | Autumn \<Rightarrow> 0 | Winter \<Rightarrow> - double 0.10))
           + (if \<bar>latitude\<bar> < 23.5 then double 0.10 else 0)))\<rparr>
   \<and> \<bar>dormant (thresholds (season_name s) latitude)
      - max 0.10 (0.30 + (case s of Spring \<Rightarrow> - 0.10 | Summer \<Rightarrow> 0 | Autumn \<Rightarrow> 0 | Winter \<Rightarrow> 0.10)
                  + (if \<bar>latitude\<bar> < 23.5 then 0.10 else 0))\<bar> \<le> 1 / 2 ^ 53
   \<and> \<bar>low (thresholds (season_name s) latitude)
      - max 0.20 (0.50 + (case s of Spring \<Rightarrow> - 0.05 | Summer \<Rightarrow> 0 | Autumn \<Rightarrow> 0 | Winter \<Rightarrow> 0.05)
                  + (if \<bar>latitude\<bar> < 23.5 then 0.10 else 0))\<bar> \<le> 1 / 2 ^ 53
   \<and> \<bar>active (thresholds (season_name s) latitude)
      - max 0.30 (0.70 + (case s of Spring \<Rightarrow> 0 | Summer \<Rightarrow> 0.05 | Autumn \<Rightarrow> 0 | Winter \<Rightarrow> - 0.05)
                  + (if \<bar>latitude\<bar> < 23.5 then 0.10 else 0))\<bar> \<le> 1 / 2 ^ 53
   \<and> \<bar>peak (thresholds (season_name s) latitude)
      - max 0.40 (0.80 + (case s of Spring \<Rightarrow> 0.05 | Summer \<Rightarrow> 0.10 | Autumn \<Rightarrow> 0 | Winter \<Rightarrow> - 0.10)
                  + (if \<bar>latitude\<bar> < 23.5 then 0.10 else 0))\<bar> \<le> 1 / 2 ^ 53
   \<and> level (classifyBloomIntensity ndvi (season_name s) latitude) =
       (if ndvi \<ge> peak (thresholds (season_name s) latitude) then PeakBloom
        else if ndvi \<ge> active (thresholds (season_name s) latitude) then ActiveBloom
        else if ndvi \<ge> low (thresholds (season_name s) latitude) then LowBloom
        else Dormant)"
  using thresholds_season_name [of s latitude] thresholds_near_decimal [of s latitude]
    level_classifyBloomIntensity [of ndvi "season_name s" latitude]
  by blast

text \<open>
  Claim C2, as stated: index 0.85 in Summer at latitude 10 is classified Peak Bloom.
  It is not: the classifier does not return Peak Bloom there.
\<close>

theorem summer_tropical_085_not_peak:
  "level (classifyBloomIntensity (double 0.85) ''Summer'' 10) \<noteq> PeakBloom"
  using thresholds_tropical [of 10 Summer]
  by (simp add: level_classifyBloomIntensity thresholds_values_tropical double_0_85)

text \<open>
  Claim C2, amended: index 0.85 in Summer at latitude 10 is classified Active Bloom. The
  peak threshold there is 0.80 + 0.10 + 0.10 = 1.00, which 0.85 does not reach; the
  active threshold is 0.70 + 0.05 + 0.10 = 0.85, which it meets. In doubles the two sums
  are exactly 1 and the double that the constant 0.85 denotes.
\<close>

theorem summer_tropical_085_active:
  "level (classifyBloomIntensity (double 0.85) ''Summer'' 10) = ActiveBloom
   \<and> peak (thresholds ''Summer'' 10) = 1
   \<and> active (thresholds ''Summer'' 10) = double 0.85"
  using thresholds_tropical [of 10 Summer]
  by (simp add: level_classifyBloomIntensity thresholds_values_tropical double_0_85)

text \<open>
  Claim C3. For a fixed season and latitude the level never falls as the index rises:
  \<open>a \<le> b\<close> gives a level for \<open>a\<close> that is at most the level for \<open>b\<close>, in the order
  Dormant < Low Bloom < Active Bloom < Peak Bloom. This holds for all index values, so
  for those of the interval from 0 to 1.
\<close>

theorem level_monotone:
  "a \<le> b \<Longrightarrow>
     level_rank (level (classifyBloomIntensity a season latitude))
       \<le> level_rank (level (classifyBloomIntensity b season latitude))"
  by (simp add: level_classifyBloomIntensity)

lemma double_0_4_0_9:
  "double (2 / 5) = 3602879701896397 / 2 ^ 53" "double (9 / 10) = 8106479329266893 / 2 ^ 53"
  by (simp_all add: double_eval)

theorem level_monotone_witness:
  "double 0.4 \<le> double 0.9
   \<and> level (classifyBloomIntensity (double 0.4) ''Spring'' 45) = Dormant
   \<and> level (classifyBloomIntensity (double 0.9) ''Spring'' 45) = PeakBloom
   \<and> level_rank (level (classifyBloomIntensity (double 0.4) ''Spring'' 45))
       \<le> level_rank (level (classifyBloomIntensity (double 0.9) ''Spring'' 45))"
proof -
  have h: "double 0.4 \<le> double 0.9" by (simp add: double_0_4_0_9)
  show ?thesis
    using h level_monotone [OF h, of "''Spring''" 45]
    by (simp add: level_classifyBloomIntensity thresholds_values_temperate double_0_4_0_9)
qed

lemma double_0_55: "double (11 / 20) = 2476979795053773 / 2 ^ 52"
  by (simp add: double_eval)

lemma service_and_map_disagree:
  "level (classifyBloomIntensity (double 0.55) ''Summer'' 45) = LowBloom
   \<and> map_level (map_classifyBloomIntensity (double 0.55) ''Summer'' 45) = Dormant"
proof -
  have "map_t ''Summer'' = \<lparr>dormant = 3602879701896397 / 2 ^ 53, low = 5404319552844595 / 2 ^ 53,
      active = 3602879701896397 / 2 ^ 52, peak = 7656119366529843 / 2 ^ 53\<rparr>"
    by (simp add: map_t_def map_thresholds_def double_eval)
  then show ?thesis
    by (simp add: level_classifyBloomIntensity thresholds_values_temperate double_0_55
        map_classifyBloomIntensity_def Let_def)
qed

lemma confidences_disagree:
  "confidence (classifyBloomIntensity (double 0.55) ''Summer'' 45) = 90
   \<and> map_confidence (map_classifyBloomIntensity (double 0.55) ''Summer'' 45) = 65"
  by code_simp

lemma service_depends_on_latitude:
  "level (classifyBloomIntensity 0.75 ''Summer'' 10) = LowBloom
   \<and> level (classifyBloomIntensity 0.75 ''Summer'' 45) = ActiveBloom"
  using thresholds_tropical [of 10 Summer]
  by (simp add: level_classifyBloomIntensity thresholds_values_tropical
      thresholds_values_temperate)

text \<open>
  Claim C4. The classifier of the classification service and the one of the map
  component are not extensionally equal: at some index, season and latitude they return
  different levels. The map component does not read the latitude, the service does, and
  the two compute the confidence by different formulas.
\<close>

theorem classifiers_differ:
  "(\<exists>ndvi season latitude.
      level (classifyBloomIntensity ndvi season latitude)
        \<noteq> map_level (map_classifyBloomIntensity ndvi season latitude))
   \<and> map_classifyBloomIntensity ndvi' season' latitude1 = map_classifyBloomIntensity ndvi' season' latitude2
   \<and> (\<exists>ndvi season latitude1 latitude2.
        level (classifyBloomIntensity ndvi season latitude1)
          \<noteq> level (classifyBloomIntensity ndvi season latitude2))
   \<and> (\<exists>ndvi season latitude.
        confidence (classifyBloomIntensity ndvi season latitude)
          \<noteq> map_confidence (map_classifyBloomIntensity ndvi season latitude))"
proof -
  have "level (classifyBloomIntensity (double 0.55) ''Summer'' 45)
          \<noteq> map_level (map_classifyBloomIntensity (double 0.55) ''Summer'' 45)"
    using service_and_map_disagree by simp
  then have a: "\<exists>ndvi season latitude.
      level (classifyBloomIntensity ndvi season latitude)
        \<noteq> map_level (map_classifyBloomIntensity ndvi season latitude)"
    by blast
  have b: "map_classifyBloomIntensity ndvi' season' latitude1
             = map_classifyBloomIntensity ndvi' season' latitude2"
    by (simp add: map_classifyBloomIntensity_def)
  have "level (classifyBloomIntensity 0.75 ''Summer'' 10)
          \<noteq> level (classifyBloomIntensity 0.75 ''Summer'' 45)"
    using service_depends_on_latitude by simp
  then have c: "\<exists>ndvi season latitude1 latitude2.
        level (classifyBloomIntensity ndvi season latitude1)
          \<noteq> level (classifyBloomIntensity ndvi season latitude2)"
    by blast
  have "confidence (classifyBloomIntensity (double 0.55) ''Summer'' 45)
          \<noteq> map_confidence (map_classifyBloomIntensity (double 0.55) ''Summer'' 45)"
    using confidences_disagree by simp
  then have d: "\<exists>ndvi season latitude.
        confidence (classifyBloomIntensity ndvi season latitude)
          \<noteq> map_confidence (map_classifyBloomIntensity ndvi season latitude)"
    by blast
  from a b c d show ?thesis by blast
qed

section \<open>Properties of the NDVI data service\<close>

lemma month_cases:
  "1 \<le> month \<Longrightarrow> month \<le> 12 \<Longrightarrow>
     month = 1 \<or> month = 2 \<or> month = 3 \<or> month = 4 \<or> month = 5 \<or> month = 6
     \<or> month = 7 \<or> month = 8 \<or> month = 9 \<or> month = 10 \<or> month = 11 \<or> (month::nat) = 12"
  by presburger

lemma getSeasonalNDVI_range:
  assumes "1 \<le> month" and "month \<le> 12"
  shows "case getSeasonalNDVI (getSeasonForLocation lat lon month) lat of
           Some v \<Rightarrow> 0.1 \<le> v \<and> v \<le> 0.9
         | None \<Rightarrow> False"
  using month_cases [OF assms]
  by (auto simp: getSeasonalNDVI_def getSeasonForLocation_def northernSeason_def
      southernSeason_def baseValues_def Let_def)

text \<open>
  Claim C5. For every latitude and longitude, when the data fetch throws,
  \<open>fetchNDVIData\<close> does not pass the error on: it returns the observation of the fallback
  generator. That observation has an index value between 0.1 and 0.9, confidence 0.6
  (below 0.85, and below the confidence of every reading of the satellite source) and
  the source tag \<open>Fallback\<close>. The month is the one the clock gives, 1 to 12.
\<close>

theorem fetchNDVIData_fallback:
  assumes "1 \<le> month" and "month \<le> 12"
  shows "fetchNDVIData (Inl e) month latitude longitude
           = Inr (generateFallbackNDVI latitude longitude month)
       \<and> (\<exists>v. obs_ndvi (generateFallbackNDVI latitude longitude month) = Some v
              \<and> 0.1 \<le> v \<and> v \<le> 0.9)
       \<and> obs_confidence (generateFallbackNDVI latitude longitude month) = 0.6
       \<and> obs_confidence (generateFallbackNDVI latitude longitude month) < 0.85
       \<and> (0 \<le> random2 \<longrightarrow>
             obs_confidence (generateFallbackNDVI latitude longitude month)
               < obs_confidence (mockNDVIFetch lat' lon' month' random1 random2))
       \<and> obs_source (generateFallbackNDVI latitude longitude month) = ''Fallback''"
  using getSeasonalNDVI_range [OF assms, of latitude longitude]
  by (simp add: fetchNDVIData_def generateFallbackNDVI_def mockNDVIFetch_def Let_def
      split: option.splits)

theorem fetchNDVIData_fallback_witness:
  "(1::nat) \<le> 7 \<and> (7::nat) \<le> 12
   \<and> fetchNDVIData (Inl (Error ''Network Error'')) 7 (- 33.87) 151.21
       = Inr \<lparr>obs_latitude = - 33.87, obs_longitude = 151.21, obs_ndvi = Some 0.5,
               obs_ndviAnomaly = 0, obs_confidence = 0.6, obs_source = ''Fallback'',
               obs_season = Some ''Winter'', obs_seasonPhase = Some ''Mid''\<rparr>
   \<and> (0::real) \<le> 0.25
   \<and> obs_confidence (mockNDVIFetch (- 33.87) 151.21 7 0.5 0.25) = 0.875"
  using fetchNDVIData_fallback
    [where month = 7 and e = "Error ''Network Error''" and latitude = "- 33.87"
       and longitude = "151.21" and ?random2.0 = "0.25" and lat' = "- 33.87" and lon' = "151.21"
       and month' = 7 and ?random1.0 = "0.5"]
  by (simp add: generateFallbackNDVI_def getSeasonalNDVI_def getSeasonForLocation_def
      southernSeason_def baseValues_def phaseOf_def mockNDVIFetch_def Let_def)

lemma tables_differ:
  assumes "1 \<le> month" and "month \<le> 12"
  shows "name (southernSeason month) \<noteq> name (northernSeason month)"
  using month_cases [OF assms] by (auto simp: northernSeason_def southernSeason_def)

text \<open>
  Claim C8, as stated: at latitude exactly 0 the resolver uses the northern
  month-to-season table for every month. It does not: at latitude 0 in January it
  answers Summer, where the northern table has Winter.
\<close>

theorem latitude_zero_not_northern:
  "getSeasonForLocation 0 0 1 \<noteq> northernSeason 1
   \<and> name (getSeasonForLocation 0 0 1) = Some ''Summer''
   \<and> name (northernSeason 1) = Some ''Winter''"
  by (simp add: getSeasonForLocation_def northernSeason_def southernSeason_def)

text \<open>
  Claim C8, amended: the resolver takes the northern table exactly when the latitude is
  strictly positive. At latitude exactly 0, as at any strictly negative latitude, it
  uses the southern table, and in each of the months 1 to 12 the season it gives at
  latitude 0 differs from the one of the northern table.
\<close>

theorem latitude_zero_southern:
  "getSeasonForLocation 0 lon month = southernSeason month
   \<and> (lat < 0 \<longrightarrow> getSeasonForLocation lat lon month = southernSeason month)
   \<and> (lat > 0 \<longrightarrow> getSeasonForLocation lat lon month = northernSeason month)
   \<and> (1 \<le> month \<and> month \<le> 12 \<longrightarrow>
        name (getSeasonForLocation 0 lon month) \<noteq> name (northernSeason month))"
  using tables_differ [of month] by (simp add: getSeasonForLocation_def)

theorem latitude_zero_southern_witness:
  "getSeasonForLocation 0 151 7 = southernSeason 7
   \<and> (- 33 :: real) < 0 \<and> getSeasonForLocation (- 33) 151 7 = southernSeason 7
   \<and> (48 :: real) > 0 \<and> getSeasonForLocation 48 2 7 = northernSeason 7
   \<and> (1::nat) \<le> 7 \<and> (7::nat) \<le> 12
   \<and> name (getSeasonForLocation 0 151 7) = Some ''Winter''
   \<and> name (northernSeason 7) = Some ''Summer''"
  using latitude_zero_southern [of 151 7 "- 33"] latitude_zero_southern [of 2 7 48]
  by (simp add: northernSeason_def southernSeason_def)

section \<open>Properties of the cache and of the bloom data service\<close>

lemma duration_table:
  "duration ''NDVI'' = 7 * 86400000 \<and> duration ''PHENOLOGY'' = 14 * 86400000
   \<and> duration ''IMAGES'' = 30 * 86400000 \<and> duration ''LOCATIONS'' = 90 * 86400000"
  by (simp add: duration_def CACHE_DURATION_def)

lemma cache_get_hit:
  "fst (cache_get key ty now now2 cache) = Some d \<Longrightarrow>
     \<exists>e. cache key = Some e \<and> data e = d \<and> now - timestamp e < duration ty"
  by (auto simp: cache_get_def isCacheValid_def split: option.splits if_splits)

lemma cache_get_fresh:
  "cache key = Some e \<Longrightarrow> now - timestamp e < duration ty \<Longrightarrow>
     cache_get key ty now now2 cache =
       (Some (data e), cache(key \<mapsto> e\<lparr>hits := hits e + 1, lastAccessed := now2\<rparr>))"
  by (simp add: cache_get_def isCacheValid_def)

lemma cache_get_expired:
  "cache key = Some e \<Longrightarrow> now - timestamp e \<ge> duration ty \<Longrightarrow>
     cache_get key ty now now2 cache = (None, cache(key := None))"
  by (simp add: cache_get_def isCacheValid_def)

lemma getBloomData_expired:
  assumes "cache_of s (generateKey latitude longitude ''LOCATIONS'') = Some e"
    and "now - timestamp e \<ge> duration ''LOCATIONS''"
  shows "getBloomData truthy fetchBloomData now now2 now3 now4 False latitude longitude s =
     requestBloomData fetchBloomData now3 now4 latitude longitude
       ((cache_of s)(generateKey latitude longitude ''LOCATIONS'' := None)) s"
proof -
  from assms have "cache_get (generateKey latitude longitude ''LOCATIONS'') ''LOCATIONS'' now now2 (cache_of s)
      = (None, (cache_of s)(generateKey latitude longitude ''LOCATIONS'' := None))"
    by (rule cache_get_expired)
  then show ?thesis
    by (simp add: getBloomData_def getCachedLocationData_def Let_def)
qed

lemma getBloomData_fresh:
  assumes "cache_of s (generateKey latitude longitude ''LOCATIONS'') = Some e"
    and "now - timestamp e < duration ''LOCATIONS''"
  shows "getBloomData truthy fetchBloomData now now2 now3 now4 False latitude longitude s =
     (if truthy (data e) then
        (Inr (data e),
         s\<lparr>cache_of := (cache_of s)(generateKey latitude longitude ''LOCATIONS'' \<mapsto>
                e\<lparr>hits := hits e + 1, lastAccessed := now2\<rparr>)\<rparr>)
      else requestBloomData fetchBloomData now3 now4 latitude longitude
             ((cache_of s)(generateKey latitude longitude ''LOCATIONS'' \<mapsto>
                e\<lparr>hits := hits e + 1, lastAccessed := now2\<rparr>)) s)"
proof -
  from assms have "cache_get (generateKey latitude longitude ''LOCATIONS'') ''LOCATIONS'' now now2 (cache_of s)
      = (Some (data e), (cache_of s)(generateKey latitude longitude ''LOCATIONS'' \<mapsto>
                e\<lparr>hits := hits e + 1, lastAccessed := now2\<rparr>))"
    by (rule cache_get_fresh)
  then show ?thesis
    by (simp add: getBloomData_def getCachedLocationData_def Let_def)
qed

lemma fst_requestBloomData:
  "fst (requestBloomData fetchBloomData now3 now4 latitude longitude c1 s) =
     (case requestQueue s (latitude, longitude) of
        Some pending \<Rightarrow> pending
      | None \<Rightarrow> fst (fetchBloomData c1))"
  by (simp add: requestBloomData_def split: option.splits prod.splits sum.splits)

text \<open>
  Claim C6. The time-to-live is 7 days for NDVI, 14 for phenology, 30 for images and 90
  for the composed location answer. For every key and data type, \<open>DataCache.get\<close>
  returns stored data only from an entry whose age, the clock minus its write time
  stamp, is strictly below the time-to-live of the type; an entry that has expired is
  deleted and \<open>null\<close> is returned. So \<open>getBloomData\<close> with \<open>forceRefresh = false\<close>
  never answers from an expired entry: when the entry under the key of the location
  has expired, the answer is the outcome of the request in flight or of a fresh
  \<open>fetchBloomData\<close>, run on the cache without that entry. When the entry is fresh, the
  answer is its data if they are truthy, and else again the outcome of the request, run
  on the cache with the hit recorded. The statements about \<open>getBloomData\<close> are for
  coordinates below \<open>10^300\<close> in absolute value, whose products with 1000 are finite
  doubles.
\<close>

theorem cache_never_serves_expired:
  "duration ''NDVI'' = 7 * 24 * 60 * 60 * 1000
   \<and> duration ''PHENOLOGY'' = 14 * 24 * 60 * 60 * 1000
   \<and> duration ''IMAGES'' = 30 * 24 * 60 * 60 * 1000
   \<and> duration ''LOCATIONS'' = 90 * 24 * 60 * 60 * 1000
   \<and> (fst (cache_get key ty now now2 cache) = Some d \<longrightarrow>
        (\<exists>e. cache key = Some e \<and> data e = d \<and> now - timestamp e < duration ty))
   \<and> (cache key = Some e \<and> now - timestamp e \<ge> duration ty \<longrightarrow>
        cache_get key ty now now2 cache = (None, cache(key := None)))
   \<and> (\<bar>latitude\<bar> < 10 ^ 300 \<and> \<bar>longitude\<bar> < 10 ^ 300
        \<and> cache_of s (generateKey latitude longitude ''LOCATIONS'') = Some e'
        \<and> now - timestamp e' \<ge> duration ''LOCATIONS'' \<longrightarrow>
        fst (getBloomData truthy fetchBloomData now now2 now3 now4 False latitude longitude s)
          = (case requestQueue s (latitude, longitude) of
               Some pending \<Rightarrow> pending
             | None \<Rightarrow>
                 fst (fetchBloomData
                   ((cache_of s)(generateKey latitude longitude ''LOCATIONS'' := None)))))
   \<and> (\<bar>latitude\<bar> < 10 ^ 300 \<and> \<bar>longitude\<bar> < 10 ^ 300
        \<and> cache_of s (generateKey latitude longitude ''LOCATIONS'') = Some e'
        \<and> now - timestamp e' < duration ''LOCATIONS'' \<and> truthy (data e') \<longrightarrow>
        fst (getBloomData truthy fetchBloomData now now2 now3 now4 False latitude longitude s)
          = Inr (data e'))
   \<and> (\<bar>latitude\<bar> < 10 ^ 300 \<and> \<bar>longitude\<bar> < 10 ^ 300
        \<and> cache_of s (generateKey latitude longitude ''LOCATIONS'') = Some e'
        \<and> now - timestamp e' < duration ''LOCATIONS'' \<and> \<not> truthy (data e') \<longrightarrow>
        fst (getBloomData truthy fetchBloomData now now2 now3 now4 False latitude longitude s)
          = (case requestQueue s (latitude, longitude) of
               Some pending \<Rightarrow> pending
             | None \<Rightarrow>
                 fst (fetchBloomData
                   ((cache_of s)(generateKey latitude longitude ''LOCATIONS'' \<mapsto>
                      e'\<lparr>hits := hits e' + 1, lastAccessed := now2\<rparr>)))))"
proof -
  have a: "fst (cache_get key ty now now2 cache) = Some d \<longrightarrow>
        (\<exists>e. cache key = Some e \<and> data e = d \<and> now - timestamp e < duration ty)"
    using cache_get_hit [of key ty now now2 cache d] by blast
  have b: "cache key = Some e \<and> now - timestamp e \<ge> duration ty \<longrightarrow>
        cache_get key ty now now2 cache = (None, cache(key := None))"
    using cache_get_expired [of cache key e ty now now2] by blast
  have c: "cache_of s (generateKey latitude longitude ''LOCATIONS'') = Some e'
        \<and> now - timestamp e' \<ge> duration ''LOCATIONS'' \<longrightarrow>
        fst (getBloomData truthy fetchBloomData now now2 now3 now4 False latitude longitude s)
          = (case requestQueue s (latitude, longitude) of
               Some pending \<Rightarrow> pending
             | None \<Rightarrow>
                 fst (fetchBloomData
                   ((cache_of s)(generateKey latitude longitude ''LOCATIONS'' := None))))"
    using getBloomData_expired [of s latitude longitude e' now truthy fetchBloomData now2 now3 now4]
    by (simp add: fst_requestBloomData)
  have d: "cache_of s (generateKey latitude longitude ''LOCATIONS'') = Some e'
        \<and> now - timestamp e' < duration ''LOCATIONS'' \<and> truthy (data e') \<longrightarrow>
        fst (getBloomData truthy fetchBloomData now now2 now3 now4 False latitude longitude s)
          = Inr (data e')"
    using getBloomData_fresh [of s latitude longitude e' now truthy fetchBloomData now2 now3 now4]
    by simp
  have e: "cache_of s (generateKey latitude longitude ''LOCATIONS'') = Some e'
        \<and> now - timestamp e' < duration ''LOCATIONS'' \<and> \<not> truthy (data e') \<longrightarrow>
        fst (getBloomData truthy fetchBloomData now now2 now3 now4 False latitude longitude s)
          = (case requestQueue s (latitude, longitude) of
               Some pending \<Rightarrow> pending
             | None \<Rightarrow>
                 fst (fetchBloomData
                   ((cache_of s)(generateKey latitude longitude ''LOCATIONS'' \<mapsto>
                      e'\<lparr>hits := hits e' + 1, lastAccessed := now2\<rparr>))))"
    using getBloomData_fresh [of s latitude longitude e' now truthy fetchBloomData now2 now3 now4]
    by (simp add: fst_requestBloomData)
  from duration_table a b c d e show ?thesis by simp
qed

lemma generateKey_examples:
  "generateKey 10 20 ''LOCATIONS'' = CacheKey ''LOCATIONS'' 10 20"
  "generateKey (double 0.5005) 20 ''LOCATIONS'' = CacheKey ''LOCATIONS'' (1 / 2) 20"
  by (simp_all add: generateKey_def Math_round_def double_eval)

theorem cache_never_serves_expired_witness:
  "fst (cache_get (CacheKey ''LOCATIONS'' 10 20) ''LOCATIONS'' 7776000999 7776000999
         (Map.empty(CacheKey ''LOCATIONS'' 10 20 \<mapsto>
            \<lparr>data = (1::nat), timestamp = 1000, dataType = ''LOCATIONS'', hits = 0, lastAccessed = 1000\<rparr>)))
     = Some 1
   \<and> (7776000999::int) - 1000 < duration ''LOCATIONS''
   \<and> (7776001000::int) - 1000 \<ge> duration ''LOCATIONS''
   \<and> fst (cache_get (CacheKey ''LOCATIONS'' 10 20) ''LOCATIONS'' 7776001000 7776001000
         (Map.empty(CacheKey ''LOCATIONS'' 10 20 \<mapsto>
            \<lparr>data = (1::nat), timestamp = 1000, dataType = ''LOCATIONS'', hits = 0, lastAccessed = 1000\<rparr>)))
     = None
   \<and> \<bar>10 :: real\<bar> < 10 ^ 300 \<and> \<bar>20 :: real\<bar> < 10 ^ 300
   \<and> generateKey 10 20 ''LOCATIONS'' = CacheKey ''LOCATIONS'' 10 20
   \<and> fst (getBloomData (\<lambda>d. d \<noteq> 0) (\<lambda>c. (Inr 2, c)) 7776000999 7776000999 7776001500 7776001500
         False 10 20
         \<lparr>cache_of = Map.empty(CacheKey ''LOCATIONS'' 10 20 \<mapsto>
            \<lparr>data = (1::nat), timestamp = 1000, dataType = ''LOCATIONS'', hits = 0, lastAccessed = 1000\<rparr>),
          requestQueue = Map.empty\<rparr>)
     = Inr 1
   \<and> fst (getBloomData (\<lambda>d. d \<noteq> 0) (\<lambda>c. (Inr 2, c)) 7776001000 7776001000 7776001500 7776001500
         False 10 20
         \<lparr>cache_of = Map.empty(CacheKey ''LOCATIONS'' 10 20 \<mapsto>
            \<lparr>data = (1::nat), timestamp = 1000, dataType = ''LOCATIONS'', hits = 0, lastAccessed = 1000\<rparr>),
          requestQueue = Map.empty\<rparr>)
     = Inr 2
   \<and> fst (getBloomData (\<lambda>d. d \<noteq> 0) (\<lambda>c. (Inr 2, c)) 7776000999 7776000999 7776001500 7776001500
         False 10 20
         \<lparr>cache_of = Map.empty(CacheKey ''LOCATIONS'' 10 20 \<mapsto>
            \<lparr>data = (0::nat), timestamp = 1000, dataType = ''LOCATIONS'', hits = 0, lastAccessed = 1000\<rparr>),
          requestQueue = Map.empty\<rparr>)
     = Inr 2"
  using
    cache_never_serves_expired
    [where key = "CacheKey ''LOCATIONS'' 10 20" and ty = "''LOCATIONS''" and now = 7776000999
       and ?now2.0 = 7776000999 and ?now3.0 = 7776001500 and ?now4.0 = 7776001500
       and latitude = 10 and longitude = 20 and fetchBloomData = "\<lambda>c. (Inr 2, c)"
       and truthy = "\<lambda>d. d \<noteq> 0" and d = 1
       and cache = "Map.empty(CacheKey ''LOCATIONS'' 10 20 \<mapsto>
            \<lparr>data = (1::nat), timestamp = 1000, dataType = ''LOCATIONS'', hits = 0, lastAccessed = 1000\<rparr>)"
       and e = "\<lparr>data = (1::nat), timestamp = 1000, dataType = ''LOCATIONS'', hits = 0, lastAccessed = 1000\<rparr>"
       and e' = "\<lparr>data = (1::nat), timestamp = 1000, dataType = ''LOCATIONS'', hits = 0, lastAccessed = 1000\<rparr>"
       and s = "\<lparr>cache_of = Map.empty(CacheKey ''LOCATIONS'' 10 20 \<mapsto>
            \<lparr>data = (1::nat), timestamp = 1000, dataType = ''LOCATIONS'', hits = 0, lastAccessed = 1000\<rparr>),
          requestQueue = Map.empty\<rparr>"]
    cache_never_serves_expired
    [where key = "CacheKey ''LOCATIONS'' 10 20" and ty = "''LOCATIONS''" and now = 7776001000
       and ?now2.0 = 7776001000 and ?now3.0 = 7776001500 and ?now4.0 = 7776001500
       and latitude = 10 and longitude = 20 and fetchBloomData = "\<lambda>c. (Inr 2, c)"
       and truthy = "\<lambda>d. d \<noteq> 0" and d = 1
       and cache = "Map.empty(CacheKey ''LOCATIONS'' 10 20 \<mapsto>
            \<lparr>data = (1::nat), timestamp = 1000, dataType = ''LOCATIONS'', hits = 0, lastAccessed = 1000\<rparr>)"
       and e = "\<lparr>data = (1::nat), timestamp = 1000, dataType = ''LOCATIONS'', hits = 0, lastAccessed = 1000\<rparr>"
       and e' = "\<lparr>data = (1::nat), timestamp = 1000, dataType = ''LOCATIONS'', hits = 0, lastAccessed = 1000\<rparr>"
       and s = "\<lparr>cache_of = Map.empty(CacheKey ''LOCATIONS'' 10 20 \<mapsto>
            \<lparr>data = (1::nat), timestamp = 1000, dataType = ''LOCATIONS'', hits = 0, lastAccessed = 1000\<rparr>),
          requestQueue = Map.empty\<rparr>"]
    cache_never_serves_expired
    [where key = "CacheKey ''LOCATIONS'' 10 20" and ty = "''LOCATIONS''" and now = 7776000999
       and ?now2.0 = 7776000999 and ?now3.0 = 7776001500 and ?now4.0 = 7776001500
       and latitude = 10 and longitude = 20 and fetchBloomData = "\<lambda>c. (Inr 2, c)"
       and truthy = "\<lambda>d. d \<noteq> 0" and d = 1
       and cache = "Map.empty(CacheKey ''LOCATIONS'' 10 20 \<mapsto>
            \<lparr>data = (0::nat), timestamp = 1000, dataType = ''LOCATIONS'', hits = 0, lastAccessed = 1000\<rparr>)"
       and e = "\<lparr>data = (0::nat), timestamp = 1000, dataType = ''LOCATIONS'', hits = 0, lastAccessed = 1000\<rparr>"
       and e' = "\<lparr>data = (0::nat), timestamp = 1000, dataType = ''LOCATIONS'', hits = 0, lastAccessed = 1000\<rparr>"
       and s = "\<lparr>cache_of = Map.empty(CacheKey ''LOCATIONS'' 10 20 \<mapsto>
            \<lparr>data = (0::nat), timestamp = 1000, dataType = ''LOCATIONS'', hits = 0, lastAccessed = 1000\<rparr>),
          requestQueue = Map.empty\<rparr>"]
  by (simp add: cache_get_def isCacheValid_def duration_def CACHE_DURATION_def
      generateKey_examples getBloomData_def requestBloomData_def getCachedLocationData_def Let_def)

lemma Promise_allSettled_length: "length (Promise_allSettled outcomes) = length outcomes"
  by (simp add: Promise_allSettled_def)

text \<open>
  Claim C7. For a list of \<open>n\<close> locations \<open>getBatchBloomData\<close> returns, and does not
  fail: \<open>n\<close> slots in the order of the input, the slot of a point whose computation
  failed with data \<open>null\<close> and the reason of the failure as its error, every other slot
  with the value computed and no error.
\<close>

theorem batch_partial_results:
  "\<exists>slots. getBatchBloomData settles locations = Inr slots
     \<and> length slots = length locations
     \<and> (\<forall>i < length locations.
           slot_location (slots ! i) = locations ! i
         \<and> (case settles i (loc_latitude (locations ! i)) (loc_longitude (locations ! i)) of
              Inl reason \<Rightarrow> slot_data (slots ! i) = None \<and> slot_error (slots ! i) = Some reason
            | Inr v \<Rightarrow> slot_data (slots ! i) = Some v \<and> slot_error (slots ! i) = None))"
  by (auto simp: getBatchBloomData_def Let_def Promise_allSettled_length Promise_allSettled_def
      nth_enumerate_eq split: sum.splits)

theorem batch_partial_results_witness:
  "getBatchBloomData (\<lambda>i latitude longitude. if i = 2 then Inl (Error ''provider'') else Inr (i + 1))
     [\<lparr>loc_latitude = 1, loc_longitude = 10\<rparr>, \<lparr>loc_latitude = 2, loc_longitude = 20\<rparr>,
      \<lparr>loc_latitude = 3, loc_longitude = 30\<rparr>, \<lparr>loc_latitude = 4, loc_longitude = 40\<rparr>,
      \<lparr>loc_latitude = 5, loc_longitude = 50\<rparr>]
   = Inr
     [\<lparr>slot_location = \<lparr>loc_latitude = 1, loc_longitude = 10\<rparr>, slot_data = Some 1, slot_error = None\<rparr>,
      \<lparr>slot_location = \<lparr>loc_latitude = 2, loc_longitude = 20\<rparr>, slot_data = Some 2, slot_error = None\<rparr>,
      \<lparr>slot_location = \<lparr>loc_latitude = 3, loc_longitude = 30\<rparr>, slot_data = None,
        slot_error = Some (Error ''provider'')\<rparr>,
      \<lparr>slot_location = \<lparr>loc_latitude = 4, loc_longitude = 40\<rparr>, slot_data = Some 4, slot_error = None\<rparr>,
      \<lparr>slot_location = \<lparr>loc_latitude = 5, loc_longitude = 50\<rparr>, slot_data = Some 5, slot_error = None\<rparr>]"
  using batch_partial_results
    [of "\<lambda>i latitude longitude. if i = 2 then Inl (Error ''provider'') else Inr (i + 1)"
        "[\<lparr>loc_latitude = 1, loc_longitude = 10\<rparr>, \<lparr>loc_latitude = 2, loc_longitude = 20\<rparr>,
          \<lparr>loc_latitude = 3, loc_longitude = 30\<rparr>, \<lparr>loc_latitude = 4, loc_longitude = 40\<rparr>,
          \<lparr>loc_latitude = 5, loc_longitude = 50\<rparr>]"]
  by (simp add: getBatchBloomData_def Promise_allSettled_def Let_def enumerate_eq_zip upt_rec)

section \<open>Properties of the historical comparison\<close>










section \<open>Properties of the forecast engine\<close>

text \<open>
  Claim C9. The forecast operation is total: on every historical series it returns a
  result and no error. On the empty series the result is the empty sequence. On a
  non-empty series with fewer than 2 distinct data points it is the flat forecast, one
  point for each of the \<open>N\<close> months asked for, each repeating the last known value, and
  it is tagged as low-confidence.
\<close>

theorem forecast_total:
  "(\<exists>r. forecast fit history N = Inr r)
   \<and> forecast fit [] N = Inr \<lparr>points = [], tag = LowConfidence\<rparr>
   \<and> (history \<noteq> [] \<and> length (remdups history) < 2 \<longrightarrow>
        (\<exists>r. forecast fit history N = Inr r \<and> tag r = LowConfidence \<and> length (points r) = N
          \<and> (\<forall>p\<in>set (points r). predicted_index p = snd (last history)
                \<and> lower_bound p = snd (last history) \<and> upper_bound p = snd (last history))))"
  by (auto simp: forecast_def flat_forecast_def)

theorem forecast_total_witness:
  "[(3::nat, 0.5::real), (3, 0.5)] \<noteq> [] \<and> length (remdups [(3::nat, 0.5::real), (3, 0.5)]) < 2
   \<and> forecast (\<lambda>history N. []) [(3, 0.5), (3, 0.5)] 2 = Inr \<lparr>points =
      [\<lparr>target_month = 4, predicted_index = 0.5, lower_bound = 0.5, upper_bound = 0.5\<rparr>,
       \<lparr>target_month = 5, predicted_index = 0.5, lower_bound = 0.5, upper_bound = 0.5\<rparr>],
      tag = LowConfidence\<rparr>"
  using forecast_total [of "\<lambda>history N. []" "[(3, 0.5), (3, 0.5)]" 2]
  by (simp add: forecast_def flat_forecast_def upt_rec)

end
